theory Spec2Isabelle
  imports Complex_Main "HOL-Library.Sublist"
begin

section \<open>Data model of the chat layer (bot.py)\<close>

text \<open>
  A \<open>Course\<close> as the chat layer reads it. The class itself is declared in the
  recommender module; bot.py reads exactly these six attributes. The three categorical
  attributes may be \<open>None\<close> (the code guards each read with \<open>or ""\<close> / \<open>or 'N/A'\<close>),
  so they are options. The two numeric attributes are Python floats; nothing proved below
  depends on their arithmetic, they are carried as rationals.
\<close>

record course =
  title :: string
  organization :: "string option"
  certificate_type :: "string option"
  difficulty :: "string option"
  rating :: rat
  students_enrolled :: rat

text \<open>
  \<open>USERS: Dict[int, Dict[str, Any]]\<close>. The only values the program ever stores are the
  strings cut out of the callback data, so a preference dictionary maps keys to strings.
\<close>

type_synonym prefs = "string \<rightharpoonup> string"
type_synonym users = "int \<rightharpoonup> prefs"

section \<open>String primitives\<close>

text \<open>
  Text is modelled as ASCII: \<open>str.lower\<close> maps \<open>A\<close>..\<open>Z\<close> to \<open>a\<close>..\<open>z\<close> and leaves every
  other character alone.
\<close>

definition lower_char :: "char \<Rightarrow> char" where
  "lower_char c =
     (case map_of (zip ''ABCDEFGHIJKLMNOPQRSTUVWXYZ'' ''abcdefghijklmnopqrstuvwxyz'') c of
        None \<Rightarrow> c
      | Some l \<Rightarrow> l)"

definition lower :: "string \<Rightarrow> string" where
  "lower s = map lower_char s"

text \<open>Python's \<open>x or ""\<close> on an optional string: \<open>None\<close> and \<open>""\<close> both give \<open>""\<close>.\<close>

definition or_empty :: "string option \<Rightarrow> string" where
  "or_empty v = (case v of None \<Rightarrow> [] | Some s \<Rightarrow> s)"

text \<open>\<open>s.startswith(p)\<close>.\<close>

definition startswith :: "string \<Rightarrow> string \<Rightarrow> bool" where
  "startswith s p = (take (length p) s = p)"

text \<open>\<open>p in s\<close> on strings: \<open>p\<close> starts at some position of \<open>s\<close>.\<close>

fun str_in :: "string \<Rightarrow> string \<Rightarrow> bool" where
  "str_in p [] = (p = [])"
| "str_in p (y # ys) = (startswith (y # ys) p \<or> str_in p ys)"

section \<open>The preference post-filter\<close>

text \<open>
  \<open>prefs.get(key)\<close>, then \<open>or ""\<close>, then \<open>.lower()\<close>: the first two lines of
  \<open>_apply_user_filters\<close>.
\<close>

definition pref_lower :: "prefs \<Rightarrow> string \<Rightarrow> string" where
  "pref_lower p key = lower (or_empty (p key))"

text \<open>The inner function \<open>ok\<close>, with \<open>level\<close> and \<open>cert\<close> captured from the caller.\<close>

definition ok :: "string \<Rightarrow> string \<Rightarrow> course \<Rightarrow> bool" where
  "ok level cert c =
     (let good = True;
          good = (if level \<noteq> [] then good \<and> str_in level (lower (or_empty (difficulty c)))
                  else good);
          good = (if cert \<noteq> [] then good \<and> str_in cert (lower (or_empty (certificate_type c)))
                  else good)
      in good)"

definition apply_user_filters :: "course list \<Rightarrow> prefs \<Rightarrow> course list" where
  "apply_user_filters courses p =
     (let level = pref_lower p ''difficulty'';
          cert = pref_lower p ''certificate_type''
      in filter (ok level cert) courses)"

section \<open>Handlers\<close>

text \<open>
  \<open>str.strip()\<close> without arguments removes leading and trailing whitespace; on ASCII
  text the whitespace characters are the codes 9 to 13 and 28 to 32.
\<close>

definition is_space :: "char \<Rightarrow> bool" where
  "is_space c = (let n = (of_char c :: nat) in (9 \<le> n \<and> n \<le> 13) \<or> (28 \<le> n \<and> n \<le> 32))"

definition strip :: "string \<Rightarrow> string" where
  "strip s = rev (dropWhile is_space (rev (dropWhile is_space s)))"

text \<open>
  \<open>RECO\<close>, the engine object. Its class lives in the recommender module; the chat
  layer calls two methods on it, with a query and a count, or a count alone. They are
  parameters of the handlers here.
\<close>

record engine =
  recommend :: "string \<Rightarrow> nat \<Rightarrow> course list"
  trending :: "nat \<Rightarrow> course list"

text \<open>
  A raised Python exception, by class name. \<open>PyException\<close> is an instance of
  \<open>Exception\<close> or of one of its subclasses; \<open>PyBaseException\<close> is an instance of a
  class that derives from \<open>BaseException\<close> but not from \<open>Exception\<close>
  (\<open>asyncio.CancelledError\<close>, \<open>KeyboardInterrupt\<close>, \<open>SystemExit\<close>).
  \<open>is_Exception e\<close> is \<open>isinstance(e, Exception)\<close>, the test an
  \<open>except Exception\<close> clause makes.
\<close>

datatype py_exception = PyException string | PyBaseException string

fun is_Exception :: "py_exception \<Rightarrow> bool" where
  "is_Exception (PyException n) = True"
| "is_Exception (PyBaseException n) = False"

text \<open>
  What a handler does to the outside world, in the order it does it: calls on the engine
  and messages sent. \<open>ReplyCourse c\<close> is
  \<open>reply_html(format_course(c), reply_markup=build_url_button(None))\<close>;
  \<open>ReplyTo m t\<close> is \<open>reply_text(t)\<close> on the message \<open>m\<close>.
\<close>

datatype action =
    Recommend string nat
  | Trending nat
  | ReplyText string
  | ReplyCourse course
  | LogException string py_exception
  | ReplyTo int string

text \<open>\<open>USERS.get(chat_id, {})\<close>.\<close>

definition users_get :: "users \<Rightarrow> int \<Rightarrow> prefs" where
  "users_get USERS chat_id = (case USERS chat_id of None \<Rightarrow> Map.empty | Some d \<Rightarrow> d)"

text \<open>The four bytes of the fire emoji that opens the header of \<open>/top\<close>.\<close>

definition fire :: string where
  "fire = map char_of [240, 159, 148, 165 :: nat]"

definition top :: "engine \<Rightarrow> users \<Rightarrow> int \<Rightarrow> action list" where
  "top RECO USERS chat_id =
     (let p = users_get USERS chat_id;
          courses = trending RECO 10;
          filtered = apply_user_filters courses p;
          courses = (if filtered \<noteq> [] then filtered else take 5 courses)
      in [Trending 10, ReplyText (fire @ '' Trending courses:'')]
         @ map ReplyCourse (take 5 courses))"

text \<open>
  \<open>on_message\<close>; the argument \<open>msg_text\<close> is \<open>update.message.text\<close>, which may be
  \<open>None\<close>.
\<close>

definition on_message :: "engine \<Rightarrow> users \<Rightarrow> int \<Rightarrow> string option \<Rightarrow> action list" where
  "on_message RECO USERS chat_id msg_text =
     (let text = strip (or_empty msg_text) in
      if text = [] then []
      else
        (let p = users_get USERS chat_id;
             pool = recommend RECO text 25;
             picked = apply_user_filters pool p;
             picked = (if picked = [] then take 5 pool else picked)
         in [Recommend text 25, ReplyText ''Here are your recommendations:'']
            @ map ReplyCourse (take 5 picked)))"

text \<open>Reading a trace: the calls on the engine, and the courses rendered, in order.\<close>

fun is_engine_call :: "action \<Rightarrow> bool" where
  "is_engine_call (Recommend q k) = True"
| "is_engine_call (Trending k) = True"
| "is_engine_call a = False"

definition engine_calls :: "action list \<Rightarrow> action list" where
  "engine_calls tr = filter is_engine_call tr"

fun rendered :: "action list \<Rightarrow> course list" where
  "rendered [] = []"
| "rendered (ReplyCourse c # tr) = c # rendered tr"
| "rendered (a # tr) = rendered tr"

subsection \<open>The global error handler and its registration\<close>

text \<open>
  The \<open>update\<close> argument is any object; when it is an \<open>Update\<close> it may carry an
  effective message (here the identifier of the message to answer).
\<close>

datatype update_obj = Update "int option" | OtherObject

definition apology :: string where
  "apology = ''Oops, something went wrong. Try again.''"

text \<open>
  \<open>error_handler update context\<close>, with \<open>err\<close> for \<open>context.error\<close>. Sending the
  reply is the one step that awaits the network: \<open>reply_raises\<close> is \<open>None\<close> when
  \<open>reply_text\<close> returns and \<open>Some e\<close> when it raises \<open>e\<close>. The \<open>try\<close> block has
  the one clause \<open>except Exception: pass\<close>, so an \<open>e\<close> that is an \<open>Exception\<close> is
  dropped and any other \<open>e\<close> leaves the handler. The result is the trace and either the
  exception that leaves the handler or \<open>()\<close>.
\<close>

definition error_handler ::
  "update_obj \<Rightarrow> py_exception \<Rightarrow> py_exception option \<Rightarrow> action list \<times> (py_exception + unit)" where
  "error_handler update err reply_raises =
     (let logged = [LogException ''Unhandled exception in handler'' err] in
      case update of
        Update (Some m) \<Rightarrow>
          (case reply_raises of
             None \<Rightarrow> (logged @ [ReplyTo m apology], Inr ())
           | Some e \<Rightarrow>
               (logged @ [ReplyTo m apology], if is_Exception e then Inr () else Inl e))
      | Update None \<Rightarrow> (logged, Inr ())
      | OtherObject \<Rightarrow> (logged, Inr ()))"

text \<open>\<open>main\<close>: the token check and the registrations, in order.\<close>

datatype callback = Start | Help_cmd | Top | Setprefs | Button | On_message | Error_handler

datatype handler =
    CommandHandler string callback
  | CallbackQueryHandler callback
  | MessageHandler callback

record application =
  token :: string
  handlers :: "handler list"
  error_handlers :: "callback list"

definition main :: "string option \<Rightarrow> py_exception + application" where
  "main BOT_TOKEN =
     (if or_empty BOT_TOKEN = [] then Inl (PyException ''RuntimeError'')
      else Inr \<lparr> token = or_empty BOT_TOKEN,
                 handlers = [CommandHandler ''start'' Start, CommandHandler ''help'' Help_cmd,
                             CommandHandler ''top'' Top, CommandHandler ''setprefs'' Setprefs,
                             CallbackQueryHandler Button, MessageHandler On_message],
                 error_handlers = [Error_handler] \<rparr>)"

subsection \<open>The button callback\<close>

text \<open>\<open>s.split(sep, 1)\<close>: cut at the first separator, if there is one.\<close>

definition split1 :: "char \<Rightarrow> string \<Rightarrow> string list" where
  "split1 sep s =
     (if sep \<in> set s then [takeWhile (\<lambda>c. c \<noteq> sep) s, tl (dropWhile (\<lambda>c. c \<noteq> sep) s)]
      else [s])"

text \<open>\<open>USERS.setdefault(chat_id, {})\<close>.\<close>

definition setdefault_empty :: "users \<Rightarrow> int \<Rightarrow> users" where
  "setdefault_empty USERS chat_id =
     (case USERS chat_id of None \<Rightarrow> USERS(chat_id \<mapsto> Map.empty) | Some d \<Rightarrow> USERS)"

text \<open>\<open>USERS[chat_id][key] = v\<close>, after \<open>setdefault\<close> has made the entry exist.\<close>

definition set_pref :: "users \<Rightarrow> int \<Rightarrow> string \<Rightarrow> string \<Rightarrow> users" where
  "set_pref USERS chat_id key v = USERS(chat_id \<mapsto> (users_get USERS chat_id)(key \<mapsto> v))"

text \<open>\<open>d.get(key, "N/A")\<close>.\<close>

definition get_or_na :: "prefs \<Rightarrow> string \<Rightarrow> string" where
  "get_or_na d key = (case d key of None \<Rightarrow> ''N/A'' | Some v \<Rightarrow> v)"

text \<open>
  The message each branch puts on the screen with \<open>edit_message_text\<close>, with the values
  it interpolates.
\<close>

datatype screen =
    Step2 string
  | Step3 string string
  | Saved string string
  | BackToCert
  | BackToLevel
  | Cancelled

text \<open>
  \<open>button\<close>: the store after the call, and what was shown (\<open>None\<close> when no branch
  matches) or the exception raised by the indexing \<open>[1]\<close>.
\<close>

definition button :: "users \<Rightarrow> int \<Rightarrow> string \<Rightarrow> users \<times> (py_exception + screen option)" where
  "button USERS chat_id data =
     (let U = setdefault_empty USERS chat_id in
      if startswith data ''level_'' then
        (case split1 (CHR ''_'') data of
           _ # level # _ \<Rightarrow> (set_pref U chat_id ''difficulty'' level, Inr (Some (Step2 level)))
         | _ \<Rightarrow> (U, Inl (PyException ''IndexError'')))
      else if startswith data ''cert_'' then
        (case split1 (CHR ''_'') data of
           _ # cert # _ \<Rightarrow>
             (let U' = set_pref U chat_id ''certificate_type'' cert;
                  level = get_or_na (users_get U' chat_id) ''difficulty''
              in (U', Inr (Some (Step3 level cert))))
         | _ \<Rightarrow> (U, Inl (PyException ''IndexError'')))
      else if data = ''confirm_save'' then
        (let level = get_or_na (users_get U chat_id) ''difficulty'';
             cert = get_or_na (users_get U chat_id) ''certificate_type''
         in (U, Inr (Some (Saved level cert))))
      else if data = ''back_to_cert'' then (U, Inr (Some BackToCert))
      else if data = ''back_to_level'' then (U, Inr (Some BackToLevel))
      else if data = ''back_home'' then (U, Inr (Some Cancelled))
      else (U, Inr None))"

text \<open>An engine over a fixed list, for the worked examples below.\<close>

definition list_engine :: "course list \<Rightarrow> engine" where
  "list_engine cs = \<lparr> recommend = (\<lambda>q k. take k cs), trending = (\<lambda>k. take k cs) \<rparr>"

section \<open>The claims' own words\<close>

text \<open>
  The satisfaction relation as the specification words it: a preference that is absent or
  empty constrains nothing; a set preference is met when its lowercased text occurs as a
  contiguous substring of the lowercased text of the course's field.
\<close>

definition meets :: "string option \<Rightarrow> string option \<Rightarrow> bool" where
  "meets pref field =
     (case pref of
        None \<Rightarrow> True
      | Some v \<Rightarrow> (if v = [] then True else sublist (lower v) (lower (or_empty field))))"

text \<open>A course with the given title, certificate type and difficulty, for worked examples.\<close>

definition sample :: "string \<Rightarrow> string option \<Rightarrow> string option \<Rightarrow> course" where
  "sample t cert level =
     \<lparr> title = t, organization = None, certificate_type = cert, difficulty = level,
       rating = 0, students_enrolled = 0 \<rparr>"

section \<open>Basic facts\<close>

lemma startswith_iff: "startswith s p \<longleftrightarrow> (\<exists>b. s = p @ b)"
proof
  assume "startswith s p"
  then have "s = p @ drop (length p) s"
    unfolding startswith_def by (metis append_take_drop_id)
  then show "\<exists>b. s = p @ b" by blast
next
  assume "\<exists>b. s = p @ b"
  then show "startswith s p"
    unfolding startswith_def by auto
qed

lemma startswith_prefix: "startswith s p = prefix p s"
  by (simp add: startswith_iff prefix_def)

lemma str_in_sublist: "str_in p s = sublist p s"
  by (induction s) (simp_all add: startswith_prefix sublist_Cons_right)

lemma lower_Nil_iff: "lower s = [] \<longleftrightarrow> s = []"
  by (simp add: lower_def)

lemma ok_meets:
  "ok (pref_lower p ''difficulty'') (pref_lower p ''certificate_type'') c
     = (meets (p ''difficulty'') (difficulty c) \<and> meets (p ''certificate_type'') (certificate_type c))"
  by (simp add: ok_def pref_lower_def meets_def or_empty_def str_in_sublist lower_Nil_iff
      split: option.split)

lemma rendered_map: "rendered (map ReplyCourse cs) = cs"
  by (induction cs) simp_all

lemma engine_calls_map: "engine_calls (map ReplyCourse cs) = []"
  by (induction cs) (simp_all add: engine_calls_def)

lemma on_message_trace:
  "strip (or_empty msg) \<noteq> [] \<Longrightarrow>
   on_message RECO USERS chat_id msg =
     [Recommend (strip (or_empty msg)) 25, ReplyText ''Here are your recommendations:'']
     @ map ReplyCourse
         (take 5 (if apply_user_filters (recommend RECO (strip (or_empty msg)) 25)
                       (users_get USERS chat_id) = []
                  then take 5 (recommend RECO (strip (or_empty msg)) 25)
                  else apply_user_filters (recommend RECO (strip (or_empty msg)) 25)
                         (users_get USERS chat_id)))"
  by (simp add: on_message_def Let_def)

lemma rendered_on_message:
  "strip (or_empty msg) \<noteq> [] \<Longrightarrow>
   rendered (on_message RECO USERS chat_id msg) =
     (if apply_user_filters (recommend RECO (strip (or_empty msg)) 25)
            (users_get USERS chat_id) = []
      then take 5 (recommend RECO (strip (or_empty msg)) 25)
      else take 5 (apply_user_filters (recommend RECO (strip (or_empty msg)) 25)
                     (users_get USERS chat_id)))"
  by (simp add: on_message_trace rendered_map)

lemma engine_calls_on_message:
  "engine_calls (on_message RECO USERS chat_id msg) =
     (if strip (or_empty msg) = [] then [] else [Recommend (strip (or_empty msg)) 25])"
proof (cases "strip (or_empty msg) = []")
  case True
  then show ?thesis by (simp add: on_message_def engine_calls_def)
next
  case False
  have "engine_calls (on_message RECO USERS chat_id msg) =
          Recommend (strip (or_empty msg)) 25 # engine_calls (map ReplyCourse
         (take 5 (if apply_user_filters (recommend RECO (strip (or_empty msg)) 25)
                       (users_get USERS chat_id) = []
                  then take 5 (recommend RECO (strip (or_empty msg)) 25)
                  else apply_user_filters (recommend RECO (strip (or_empty msg)) 25)
                         (users_get USERS chat_id))))"
    unfolding on_message_trace [OF False] by (simp add: engine_calls_def)
  with False show ?thesis by (simp add: engine_calls_map)
qed

lemma top_trace:
  "top RECO USERS chat_id =
     [Trending 10, ReplyText (fire @ '' Trending courses:'')]
     @ map ReplyCourse
         (take 5 (if apply_user_filters (trending RECO 10) (users_get USERS chat_id) = []
                  then take 5 (trending RECO 10)
                  else apply_user_filters (trending RECO 10) (users_get USERS chat_id)))"
  by (simp add: top_def Let_def)

lemma rendered_top:
  "rendered (top RECO USERS chat_id) =
     (if apply_user_filters (trending RECO 10) (users_get USERS chat_id) = []
      then take 5 (trending RECO 10)
      else take 5 (apply_user_filters (trending RECO 10) (users_get USERS chat_id)))"
  by (simp add: top_trace rendered_map)

lemma engine_calls_top: "engine_calls (top RECO USERS chat_id) = [Trending 10]"
proof -
  have "engine_calls (top RECO USERS chat_id) =
          Trending 10 # engine_calls (map ReplyCourse
         (take 5 (if apply_user_filters (trending RECO 10) (users_get USERS chat_id) = []
                  then take 5 (trending RECO 10)
                  else apply_user_filters (trending RECO 10) (users_get USERS chat_id))))"
    unfolding top_trace by (simp add: engine_calls_def)
  then show ?thesis by (simp add: engine_calls_map)
qed

lemma subseq_apply_user_filters: "subseq (apply_user_filters courses p) courses"
  by (simp add: apply_user_filters_def)

lemma subseq_take_self: "subseq (take n xs) xs"
  by (rule sublist_imp_subseq) simp

lemma subseq_take_filters: "subseq (take n (apply_user_filters courses p)) courses"
  using subseq_take_self subseq_apply_user_filters by (rule subseq_order.trans)

lemma take5_nonempty: "xs \<noteq> [] \<Longrightarrow> take 5 xs \<noteq> []"
  by (cases xs) simp_all

lemma setdefault_empty_other: "k \<noteq> chat_id \<Longrightarrow> setdefault_empty USERS chat_id k = USERS k"
  by (simp add: setdefault_empty_def split: option.split)

lemma users_get_setdefault_empty: "users_get (setdefault_empty USERS chat_id) k = users_get USERS k"
  by (simp add: setdefault_empty_def users_get_def split: option.split)

lemma dom_setdefault_empty: "dom (setdefault_empty USERS chat_id) = insert chat_id (dom USERS)"
  by (auto simp: setdefault_empty_def split: option.splits)

lemma set_pref_other: "k \<noteq> chat_id \<Longrightarrow> set_pref USERS chat_id key v k = USERS k"
  by (simp add: set_pref_def)

lemma users_get_set_pref:
  "users_get (set_pref USERS chat_id key v) k =
     (if k = chat_id then (users_get USERS chat_id)(key \<mapsto> v) else users_get USERS k)"
  by (simp add: set_pref_def users_get_def)

lemma dom_set_pref: "dom (set_pref USERS chat_id key v) = insert chat_id (dom USERS)"
  by (simp add: set_pref_def)

lemma level_not_cert: "startswith data ''level_'' \<Longrightarrow> \<not> startswith data ''cert_''"
  by (cases data) (auto simp: startswith_def)

lemma split1_two: "sep \<in> set s \<Longrightarrow> \<exists>a b. split1 sep s = [a, b]"
  by (simp add: split1_def)

lemma startswith_mem: "startswith s (p @ [c]) \<Longrightarrow> c \<in> set s"
proof -
  assume "startswith s (p @ [c])"
  then obtain b where "s = (p @ [c]) @ b"
    unfolding startswith_iff by blast
  then show ?thesis by simp
qed

lemma button_cases:
  "fst (button USERS chat_id data) = setdefault_empty USERS chat_id
   \<or> (startswith data ''level_'' \<and>
       (\<exists>v. fst (button USERS chat_id data)
              = set_pref (setdefault_empty USERS chat_id) chat_id ''difficulty'' v))
   \<or> (\<not> startswith data ''level_'' \<and> startswith data ''cert_'' \<and>
       (\<exists>v. fst (button USERS chat_id data)
              = set_pref (setdefault_empty USERS chat_id) chat_id ''certificate_type'' v))"
proof (cases "startswith data ''level_''")
  case True
  then show ?thesis
    by (auto simp: button_def Let_def split: list.split)
next
  case notlevel: False
  show ?thesis
  proof (cases "startswith data ''cert_''")
    case True
    with notlevel show ?thesis
      by (auto simp: button_def Let_def split: list.split)
  next
    case False
    with notlevel have "fst (button USERS chat_id data) = setdefault_empty USERS chat_id"
      by (simp add: button_def Let_def)
    then show ?thesis by simp
  qed
qed

lemma button_back:
  "data \<in> {''back_to_level'', ''back_to_cert'', ''back_home'', ''confirm_save''} \<Longrightarrow>
   fst (button USERS chat_id data) = setdefault_empty USERS chat_id"
  by (auto simp: button_def Let_def startswith_def)

lemma button_never_raises: "snd (button USERS chat_id data) \<noteq> Inl e"
proof (cases "startswith data ''level_''")
  case True
  then obtain a b where "split1 (CHR ''_'') data = [a, b]"
    using startswith_mem [of data "''level''" "CHR ''_''"] split1_two by fastforce
  with True show ?thesis
    by (simp add: button_def Let_def)
next
  case notlevel: False
  show ?thesis
  proof (cases "startswith data ''cert_''")
    case True
    then obtain a b where "split1 (CHR ''_'') data = [a, b]"
      using startswith_mem [of data "''cert''" "CHR ''_''"] split1_two by fastforce
    with True notlevel show ?thesis
      by (simp add: button_def Let_def)
  next
    case False
    with notlevel show ?thesis
      by (simp add: button_def Let_def)
  qed
qed

lemma button_example:
  "button [1 \<mapsto> [''difficulty'' \<mapsto> ''Beginner'']] 1 ''cert_COURSE''
   = ([1 \<mapsto> [''difficulty'' \<mapsto> ''Beginner'', ''certificate_type'' \<mapsto> ''COURSE'']],
      Inr (Some (Step3 ''Beginner'' ''COURSE'')))"
  by (simp add: button_def Let_def startswith_def split1_def setdefault_empty_def set_pref_def
      users_get_def get_or_na_def)

section \<open>The post-filter: what it keeps\<close>

text \<open>
  C1. For every list of courses and every preference mapping, \<open>_apply_user_filters\<close>
  returns exactly the courses that meet both preferences, in their order, where a set
  preference is met when its lowercased text is a substring of the course's lowercased
  field and an absent or empty preference constrains nothing. The engine is reached only
  through \<open>recommend(query, top_k)\<close> and \<open>trending(top_k)\<close>: the calls the handlers
  make on it are the same whatever the preference store holds, so no preference reaches
  the engine and the filtering is the caller's alone.
\<close>

theorem apply_user_filters_exact:
  "apply_user_filters courses p
     = filter (\<lambda>c. meets (p ''difficulty'') (difficulty c)
                  \<and> meets (p ''certificate_type'') (certificate_type c)) courses
   \<and> engine_calls (on_message RECO USERS chat_id msg)
       = engine_calls (on_message RECO USERS' chat_id' msg)
   \<and> engine_calls (top RECO USERS chat_id) = engine_calls (top RECO USERS' chat_id')"
proof -
  have "apply_user_filters courses p
     = filter (\<lambda>c. meets (p ''difficulty'') (difficulty c)
                  \<and> meets (p ''certificate_type'') (certificate_type c)) courses"
    unfolding apply_user_filters_def Let_def
    by (rule filter_cong) (simp_all add: ok_meets)
  then show ?thesis
    by (simp add: engine_calls_on_message engine_calls_top)
qed

theorem apply_user_filters_exact_witness:
  "apply_user_filters
     [sample ''A'' (Some ''COURSE'') (Some ''Beginner Level''),
      sample ''B'' (Some ''COURSE'') (Some ''Advanced''),
      sample ''C'' (Some ''SPECIALIZATION'') (Some ''Beginner'')]
     [''difficulty'' \<mapsto> ''Beginner'', ''certificate_type'' \<mapsto> ''course'']
   = [sample ''A'' (Some ''COURSE'') (Some ''Beginner Level'')]"
  using apply_user_filters_exact
    [of "[sample ''A'' (Some ''COURSE'') (Some ''Beginner Level''),
          sample ''B'' (Some ''COURSE'') (Some ''Advanced''),
          sample ''C'' (Some ''SPECIALIZATION'') (Some ''Beginner'')]"
        "[''difficulty'' \<mapsto> ''Beginner'', ''certificate_type'' \<mapsto> ''course'']"]
  by (simp add: meets_def sample_def or_empty_def lower_def lower_char_def
      sublist_Cons_right)

text \<open>
  A course whose difficulty is \<open>None\<close> is dropped as soon as a difficulty preference is
  set, although nothing else is asked of it: with no preference it is kept.
\<close>

theorem unset_field_counterexample:
  "apply_user_filters
     [\<lparr> title = ''Intro'', organization = None, certificate_type = Some ''COURSE'',
        difficulty = None, rating = 0, students_enrolled = 0 \<rparr>]
     [''difficulty'' \<mapsto> ''Beginner''] = []
   \<and> apply_user_filters
     [\<lparr> title = ''Intro'', organization = None, certificate_type = Some ''COURSE'',
        difficulty = None, rating = 0, students_enrolled = 0 \<rparr>]
     Map.empty
     = [\<lparr> title = ''Intro'', organization = None, certificate_type = Some ''COURSE'',
        difficulty = None, rating = 0, students_enrolled = 0 \<rparr>]"
  by (simp add: apply_user_filters_def ok_def pref_lower_def or_empty_def lower_def
      lower_char_def)

text \<open>
  C2, as the code has it. For every course whose difficulty (resp. certificate type)
  field is unset (\<open>None\<close> or empty) and every preference mapping in which that preference
  is set to a non-empty text, \<open>_apply_user_filters\<close> excludes the course: the unset
  field is read as the empty string, and no non-empty preference occurs in it.
\<close>

theorem unset_field_excluded:
  assumes "p key = Some v" and "v \<noteq> []"
    and "(key = ''difficulty'' \<and> or_empty (difficulty c) = [])
       \<or> (key = ''certificate_type'' \<and> or_empty (certificate_type c) = [])"
  shows "c \<notin> set (apply_user_filters courses p)"
proof -
  have nonempty: "pref_lower p key \<noteq> []"
    using assms(1,2) by (simp add: pref_lower_def or_empty_def lower_Nil_iff)
  from assms(3) have "\<not> ok (pref_lower p ''difficulty'') (pref_lower p ''certificate_type'') c"
  proof
    assume "key = ''difficulty'' \<and> or_empty (difficulty c) = []"
    with nonempty show ?thesis by (simp add: ok_def lower_def)
  next
    assume "key = ''certificate_type'' \<and> or_empty (certificate_type c) = []"
    with nonempty show ?thesis by (simp add: ok_def lower_def)
  qed
  then show ?thesis by (simp add: apply_user_filters_def)
qed

theorem unset_field_excluded_witness:
  "[''certificate_type'' \<mapsto> ''COURSE''] ''certificate_type'' = Some ''COURSE''
   \<and> ''COURSE'' \<noteq> []
   \<and> or_empty (certificate_type (sample ''A'' (Some []) (Some ''Beginner''))) = []
   \<and> sample ''A'' (Some []) (Some ''Beginner'')
       \<notin> set (apply_user_filters [sample ''A'' (Some []) (Some ''Beginner'')]
                [''certificate_type'' \<mapsto> ''COURSE''])"
  using unset_field_excluded
    [of "[''certificate_type'' \<mapsto> ''COURSE'']" "''certificate_type''" "''COURSE''"
        "sample ''A'' (Some []) (Some ''Beginner'')"
        "[sample ''A'' (Some []) (Some ''Beginner'')]"]
  by (simp add: sample_def or_empty_def)

text \<open>
  C9. For every preference mapping in which both the difficulty and the certificate-type
  preference are absent or empty, \<open>_apply_user_filters\<close> returns its argument: the same
  courses in the same order.
\<close>

theorem apply_user_filters_no_prefs:
  assumes "p ''difficulty'' = None \<or> p ''difficulty'' = Some []"
    and "p ''certificate_type'' = None \<or> p ''certificate_type'' = Some []"
  shows "apply_user_filters courses p = courses"
proof -
  from assms(1) have "pref_lower p ''difficulty'' = []"
    by (auto simp: pref_lower_def or_empty_def lower_def)
  moreover from assms(2) have "pref_lower p ''certificate_type'' = []"
    by (auto simp: pref_lower_def or_empty_def lower_def)
  ultimately show ?thesis
    by (simp add: apply_user_filters_def ok_def)
qed

theorem apply_user_filters_no_prefs_witness:
  "([''difficulty'' \<mapsto> []] ''difficulty'' = None \<or> [''difficulty'' \<mapsto> []] ''difficulty'' = Some [])
   \<and> ([''difficulty'' \<mapsto> []] ''certificate_type'' = None
        \<or> [''difficulty'' \<mapsto> []] ''certificate_type'' = Some [])
   \<and> apply_user_filters [sample ''A'' None None, sample ''B'' (Some ''COURSE'') (Some ''Mixed'')]
        [''difficulty'' \<mapsto> []]
       = [sample ''A'' None None, sample ''B'' (Some ''COURSE'') (Some ''Mixed'')]"
  using apply_user_filters_no_prefs [of "[''difficulty'' \<mapsto> []]"
      "[sample ''A'' None None, sample ''B'' (Some ''COURSE'') (Some ''Mixed'')]"]
  by simp

text \<open>
  C10. For every course list and preference mapping, the result of
  \<open>_apply_user_filters\<close> is a subsequence of its input in the input's order, and
  filtering the result again with the same preferences gives the result back. The source
  builds the result with a list comprehension that only reads its arguments, so the model
  is a function from the input list to a new list.
\<close>

theorem apply_user_filters_subseq_idem:
  "subseq (apply_user_filters courses p) courses
   \<and> apply_user_filters (apply_user_filters courses p) p = apply_user_filters courses p"
  by (simp add: apply_user_filters_def)

theorem apply_user_filters_subseq_idem_witness:
  "subseq (apply_user_filters [sample ''A'' None None, sample ''B'' None (Some ''Mixed'')]
             [''difficulty'' \<mapsto> ''mixed''])
          [sample ''A'' None None, sample ''B'' None (Some ''Mixed'')]
   \<and> apply_user_filters [sample ''B'' None (Some ''Mixed'')] [''difficulty'' \<mapsto> ''mixed'']
       = [sample ''B'' None (Some ''Mixed'')]"
proof -
  have f1: "apply_user_filters [sample ''A'' None None, sample ''B'' None (Some ''Mixed'')]
              [''difficulty'' \<mapsto> ''mixed''] = [sample ''B'' None (Some ''Mixed'')]"
    by (simp add: apply_user_filters_def ok_def pref_lower_def or_empty_def lower_def
        lower_char_def sample_def startswith_def)
  show ?thesis
    using apply_user_filters_subseq_idem
      [of "[sample ''A'' None None, sample ''B'' None (Some ''Mixed'')]"
          "[''difficulty'' \<mapsto> ''mixed'']"]
    by (simp add: f1)
qed

section \<open>The message handler\<close>

text \<open>
  A message of three spaces: the handler returns at once, asks the engine nothing and
  renders nothing, although the engine would have had a record to give.
\<close>

theorem on_message_blank_counterexample:
  "engine_calls (on_message (list_engine [sample ''A'' None None]) Map.empty 7 (Some ''   '')) = []
   \<and> rendered (on_message (list_engine [sample ''A'' None None]) Map.empty 7 (Some ''   '')) = []
   \<and> recommend (list_engine [sample ''A'' None None]) (strip ''   '') 25 \<noteq> []"
  by (simp add: on_message_def list_engine_def strip_def is_space_def or_empty_def
      engine_calls_def)

text \<open>
  C3, as the code has it. For every inbound text message whose text is not empty after
  stripping, \<open>on_message\<close> makes one call on the engine, \<open>recommend\<close> with
  \<open>top_k = 25\<close> on the stripped text; the courses it renders are the first at most 5 of
  the preference-filtered pool or, exactly when the filtered pool is empty, the first at
  most 5 of the unfiltered pool; hence whenever the pool is not empty at least one course
  is shown, and the courses shown are a subsequence of the pool in the engine's order.
\<close>

theorem on_message_renders:
  assumes "strip (or_empty msg) \<noteq> []"
  shows "let q = strip (or_empty msg);
             pool = recommend RECO q 25;
             picked = apply_user_filters pool (users_get USERS chat_id);
             tr = on_message RECO USERS chat_id msg
         in engine_calls tr = [Recommend q 25]
          \<and> rendered tr = (if picked = [] then take 5 pool else take 5 picked)
          \<and> length (rendered tr) \<le> 5
          \<and> (pool \<noteq> [] \<longrightarrow> rendered tr \<noteq> [])
          \<and> subseq (rendered tr) pool"
proof -
  let ?pool = "recommend RECO (strip (or_empty msg)) 25"
  let ?picked = "apply_user_filters ?pool (users_get USERS chat_id)"
  let ?tr = "on_message RECO USERS chat_id msg"
  have calls: "engine_calls ?tr = [Recommend (strip (or_empty msg)) 25]"
    using assms by (simp add: engine_calls_on_message)
  have shown: "rendered ?tr = (if ?picked = [] then take 5 ?pool else take 5 ?picked)"
    using assms by (rule rendered_on_message)
  have len: "length (rendered ?tr) \<le> 5"
    unfolding shown by simp
  have some: "?pool \<noteq> [] \<longrightarrow> rendered ?tr \<noteq> []"
    unfolding shown by (simp add: take5_nonempty)
  have order: "subseq (rendered ?tr) ?pool"
    unfolding shown by (simp add: subseq_take_self subseq_take_filters)
  from calls shown len some order show ?thesis
    unfolding Let_def by blast
qed

theorem on_message_renders_witness:
  "strip (or_empty (Some '' python '')) \<noteq> []
   \<and> engine_calls (on_message
        (list_engine [sample ''A'' None (Some ''Advanced''), sample ''B'' None (Some ''Beginner'')])
        [7 \<mapsto> [''difficulty'' \<mapsto> ''Beginner'']] 7 (Some '' python ''))
       = [Recommend ''python'' 25]
   \<and> rendered (on_message
        (list_engine [sample ''A'' None (Some ''Advanced''), sample ''B'' None (Some ''Beginner'')])
        [7 \<mapsto> [''difficulty'' \<mapsto> ''Beginner'']] 7 (Some '' python ''))
       = [sample ''B'' None (Some ''Beginner'')]
   \<and> rendered (on_message
        (list_engine [sample ''A'' None (Some ''Advanced''), sample ''B'' None (Some ''Beginner'')])
        [7 \<mapsto> [''difficulty'' \<mapsto> ''Expert'']] 7 (Some '' python ''))
       = [sample ''A'' None (Some ''Advanced''), sample ''B'' None (Some ''Beginner'')]"
proof -
  have query: "strip (or_empty (Some '' python '')) = ''python''"
    by (simp add: strip_def is_space_def or_empty_def)
  have pool: "recommend (list_engine [sample ''A'' None (Some ''Advanced''), sample ''B'' None (Some ''Beginner'')]) ''python'' 25
     = [sample ''A'' None (Some ''Advanced''), sample ''B'' None (Some ''Beginner'')]"
    by (simp add: list_engine_def)
  have f1: "apply_user_filters [sample ''A'' None (Some ''Advanced''), sample ''B'' None (Some ''Beginner'')]
              [''difficulty'' \<mapsto> ''Beginner''] = [sample ''B'' None (Some ''Beginner'')]"
    by (simp add: apply_user_filters_def ok_def pref_lower_def or_empty_def lower_def
        lower_char_def sample_def startswith_def)
  have f2: "apply_user_filters [sample ''A'' None (Some ''Advanced''), sample ''B'' None (Some ''Beginner'')]
              [''difficulty'' \<mapsto> ''Expert''] = []"
    by (simp add: apply_user_filters_def ok_def pref_lower_def or_empty_def lower_def
        lower_char_def sample_def startswith_def)
  have ne: "strip (or_empty (Some '' python '')) \<noteq> []"
    by (simp add: query)
  show ?thesis
    using on_message_renders [OF ne, of
        "list_engine [sample ''A'' None (Some ''Advanced''), sample ''B'' None (Some ''Beginner'')]"
        "[7 \<mapsto> [''difficulty'' \<mapsto> ''Beginner'']]" 7]
      on_message_renders [OF ne, of
        "list_engine [sample ''A'' None (Some ''Advanced''), sample ''B'' None (Some ''Beginner'')]"
        "[7 \<mapsto> [''difficulty'' \<mapsto> ''Expert'']]" 7]
    by (simp add: Let_def query pool f1 f2 users_get_def)
qed

text \<open>
  C5. For every inbound message whose text is \<open>None\<close>, empty or only whitespace,
  \<open>on_message\<close> returns at once: its trace is empty, so it makes no call on the engine
  and sends no reply.
\<close>

theorem on_message_blank:
  "strip (or_empty msg) = [] \<Longrightarrow> on_message RECO USERS chat_id msg = []"
  by (simp add: on_message_def)

theorem on_message_blank_witness:
  "strip (or_empty (Some [CHR '' '', CHR 0x09, CHR 0x0A])) = []
   \<and> strip (or_empty None) = []
   \<and> on_message (list_engine [sample ''A'' None None]) Map.empty 7 (Some [CHR '' '', CHR 0x09, CHR 0x0A]) = []
   \<and> on_message (list_engine [sample ''A'' None None]) Map.empty 7 None = []"
proof -
  have b1: "strip (or_empty (Some [CHR '' '', CHR 0x09, CHR 0x0A])) = []"
    by (simp add: strip_def is_space_def or_empty_def)
  have b2: "strip (or_empty None) = []"
    by (simp add: strip_def or_empty_def)
  show ?thesis
    using on_message_blank [OF b1, of "list_engine [sample ''A'' None None]" Map.empty 7]
      on_message_blank [OF b2, of "list_engine [sample ''A'' None None]" Map.empty 7] b1 b2
    by simp
qed

section \<open>The /top command\<close>

text \<open>
  C4. For every \<open>/top\<close> command the handler makes one call on the engine,
  \<open>trending(top_k=10)\<close>, filters the result by the caller's preferences, falls back to
  the first 5 unfiltered records exactly when the filter leaves nothing, and renders at
  most 5 courses; every rendered course is among those \<open>trending\<close> returned, and the
  rendered sequence keeps their order.
\<close>

theorem top_renders:
  "let pool = trending RECO 10;
       filtered = apply_user_filters pool (users_get USERS chat_id);
       tr = top RECO USERS chat_id
   in engine_calls tr = [Trending 10]
    \<and> rendered tr = (if filtered = [] then take 5 pool else take 5 filtered)
    \<and> length (rendered tr) \<le> 5
    \<and> set (rendered tr) \<subseteq> set pool
    \<and> subseq (rendered tr) pool"
proof -
  let ?pool = "trending RECO 10"
  let ?filtered = "apply_user_filters ?pool (users_get USERS chat_id)"
  let ?tr = "top RECO USERS chat_id"
  have shown: "rendered ?tr = (if ?filtered = [] then take 5 ?pool else take 5 ?filtered)"
    by (rule rendered_top)
  have len: "length (rendered ?tr) \<le> 5"
    unfolding shown by simp
  have order: "subseq (rendered ?tr) ?pool"
    unfolding shown by (simp add: subseq_take_self subseq_take_filters)
  then have among: "set (rendered ?tr) \<subseteq> set ?pool"
    by (auto elim: list_emb_set)
  from engine_calls_top shown len among order show ?thesis
    unfolding Let_def by blast
qed

theorem top_renders_witness:
  "rendered (top (list_engine [sample ''A'' None (Some ''Advanced''), sample ''B'' None (Some ''Beginner'')])
        [7 \<mapsto> [''difficulty'' \<mapsto> ''Beginner'']] 7)
       = [sample ''B'' None (Some ''Beginner'')]"
proof -
  have pool: "trending (list_engine [sample ''A'' None (Some ''Advanced''), sample ''B'' None (Some ''Beginner'')]) 10
     = [sample ''A'' None (Some ''Advanced''), sample ''B'' None (Some ''Beginner'')]"
    by (simp add: list_engine_def)
  have f1: "apply_user_filters [sample ''A'' None (Some ''Advanced''), sample ''B'' None (Some ''Beginner'')]
              [''difficulty'' \<mapsto> ''Beginner''] = [sample ''B'' None (Some ''Beginner'')]"
    by (simp add: apply_user_filters_def ok_def pref_lower_def or_empty_def lower_def
        lower_char_def sample_def startswith_def)
  show ?thesis
    using top_renders [of
        "list_engine [sample ''A'' None (Some ''Advanced''), sample ''B'' None (Some ''Beginner'')]"
        "[7 \<mapsto> [''difficulty'' \<mapsto> ''Beginner'']]" 7]
    by (simp add: Let_def pool f1 users_get_def)
qed

section \<open>The button callback: what it leaves alone\<close>

text \<open>
  C7. In the button callback every branch writes at most the one preference field it
  names, for the originating chat, and leaves the rest of the store as it was: the entry
  of every other chat is untouched; a preference of the originating chat changes only if
  it is the difficulty in the \<open>level_\<close> branch or the certificate type in the
  \<open>cert_\<close> branch; choosing a certificate keeps the stored difficulty; and the
  \<open>back_to_level\<close>, \<open>back_to_cert\<close>, \<open>back_home\<close> and \<open>confirm_save\<close> branches
  change no stored preference of any chat. (What \<open>setdefault\<close> adds before the branches
  is the key of the originating chat with an empty dictionary, which stores no
  preference.)
\<close>

theorem button_frame:
  "let U' = fst (button USERS chat_id data) in
     (\<forall>k. k \<noteq> chat_id \<longrightarrow> U' k = USERS k)
   \<and> (\<forall>key. users_get U' chat_id key \<noteq> users_get USERS chat_id key \<longrightarrow>
         (startswith data ''level_'' \<and> key = ''difficulty'')
       \<or> (startswith data ''cert_'' \<and> key = ''certificate_type''))
   \<and> (startswith data ''cert_'' \<longrightarrow>
         users_get U' chat_id ''difficulty'' = users_get USERS chat_id ''difficulty'')
   \<and> (data \<in> {''back_to_level'', ''back_to_cert'', ''back_home'', ''confirm_save''} \<longrightarrow>
         (\<forall>k. users_get U' k = users_get USERS k))
   \<and> dom U' = insert chat_id (dom USERS)"
proof -
  let ?U' = "fst (button USERS chat_id data)"
  let ?U0 = "setdefault_empty USERS chat_id"
  consider (same) "?U' = ?U0"
    | (level) v where "startswith data ''level_''" "?U' = set_pref ?U0 chat_id ''difficulty'' v"
    | (cert) v where "\<not> startswith data ''level_''" "startswith data ''cert_''"
        "?U' = set_pref ?U0 chat_id ''certificate_type'' v"
    using button_cases [of USERS chat_id data] by blast
  then have branches:
    "(\<forall>k. k \<noteq> chat_id \<longrightarrow> ?U' k = USERS k)
     \<and> (\<forall>key. users_get ?U' chat_id key \<noteq> users_get USERS chat_id key \<longrightarrow>
         (startswith data ''level_'' \<and> key = ''difficulty'')
       \<or> (startswith data ''cert_'' \<and> key = ''certificate_type''))
     \<and> (startswith data ''cert_'' \<longrightarrow>
         users_get ?U' chat_id ''difficulty'' = users_get USERS chat_id ''difficulty'')
     \<and> dom ?U' = insert chat_id (dom USERS)"
  proof cases
    case same
    then show ?thesis
      by (simp add: setdefault_empty_other users_get_setdefault_empty dom_setdefault_empty)
  next
    case level
    then show ?thesis
      using level_not_cert [of data]
      by (simp add: setdefault_empty_other set_pref_other users_get_set_pref
          users_get_setdefault_empty dom_set_pref dom_setdefault_empty)
  next
    case cert
    then show ?thesis
      by (simp add: setdefault_empty_other set_pref_other users_get_set_pref
          users_get_setdefault_empty dom_set_pref dom_setdefault_empty)
  qed
  have back_branches:
    "data \<in> {''back_to_level'', ''back_to_cert'', ''back_home'', ''confirm_save''} \<longrightarrow>
         (\<forall>k. users_get ?U' k = users_get USERS k)"
    using button_back [of data USERS chat_id] by (simp add: users_get_setdefault_empty)
  from branches back_branches show ?thesis
    unfolding Let_def by blast
qed


theorem button_frame_witness:
  "startswith ''cert_COURSE'' ''cert_'' \<and> (2::int) \<noteq> 1
   \<and> fst (button [1 \<mapsto> [''difficulty'' \<mapsto> ''Beginner''], 2 \<mapsto> [''difficulty'' \<mapsto> ''Advanced'']]
            1 ''cert_COURSE'') 2
       = [1 \<mapsto> [''difficulty'' \<mapsto> ''Beginner''], 2 \<mapsto> [''difficulty'' \<mapsto> ''Advanced'']] 2
   \<and> users_get (fst (button [1 \<mapsto> [''difficulty'' \<mapsto> ''Beginner''],
                              2 \<mapsto> [''difficulty'' \<mapsto> ''Advanced'']] 1 ''cert_COURSE''))
        1 ''difficulty'' = Some ''Beginner''
   \<and> ''back_home'' \<in> {''back_to_level'', ''back_to_cert'', ''back_home'', ''confirm_save''}
   \<and> users_get (fst (button [1 \<mapsto> [''difficulty'' \<mapsto> ''Beginner'']] 1 ''back_home'')) 1
       = users_get [1 \<mapsto> [''difficulty'' \<mapsto> ''Beginner'']] 1"
proof -
  have pre: "startswith ''cert_COURSE'' ''cert_''"
    by (simp add: startswith_def)
  have stored: "users_get [1 \<mapsto> [''difficulty'' \<mapsto> ''Beginner''],
                           2 \<mapsto> [''difficulty'' \<mapsto> ''Advanced'']] (1::int) ''difficulty''
                  = Some ''Beginner''"
    by (simp add: users_get_def)
  show ?thesis
    using button_frame [of "[1 \<mapsto> [''difficulty'' \<mapsto> ''Beginner''],
                             2 \<mapsto> [''difficulty'' \<mapsto> ''Advanced'']]" 1 "''cert_COURSE''"]
      button_frame [of "[1 \<mapsto> [''difficulty'' \<mapsto> ''Beginner'']]" 1 "''back_home''"]
      pre stored
    by (simp add: Let_def)
qed

section \<open>The global error handler\<close>

text \<open>
  The reply is awaited, and the task may be cancelled while it waits: the
  \<open>CancelledError\<close> raised there is not an \<open>Exception\<close>, the \<open>except\<close> clause does
  not catch it, and it leaves the handler.
\<close>

theorem error_handler_propagates_counterexample:
  "error_handler (Update (Some 42)) (PyException ''KeyError'')
     (Some (PyBaseException ''CancelledError''))
   = ([LogException ''Unhandled exception in handler'' (PyException ''KeyError''),
       ReplyTo 42 ''Oops, something went wrong. Try again.''],
      Inl (PyBaseException ''CancelledError''))"
  by (simp add: error_handler_def apology_def)

text \<open>
  C6, as the code has it. Whatever update and exception the error handler is called
  with, it logs the exception and replies with the fixed text
  \<open>Oops, something went wrong. Try again.\<close> exactly when the update is an \<open>Update\<close>
  that carries an effective message. When the reply succeeds or fails with an instance of
  \<open>Exception\<close> the handler returns normally: such a failure is swallowed. An exception
  leaves the handler exactly when the reply was attempted and raised something that is
  not an \<open>Exception\<close>, and then it is that exception. \<open>main\<close>, once the token is set,
  registers the handler as the one error handler of the application.
\<close>

theorem error_handler_swallows:
  "fst (error_handler update err reply_raises)
       = LogException ''Unhandled exception in handler'' err
         # (case update of
              Update (Some m) \<Rightarrow> [ReplyTo m ''Oops, something went wrong. Try again.'']
            | Update None \<Rightarrow> []
            | OtherObject \<Rightarrow> [])
   \<and> ((case reply_raises of None \<Rightarrow> True | Some e \<Rightarrow> is_Exception e) \<longrightarrow>
        snd (error_handler update err reply_raises) = Inr ())
   \<and> (snd (error_handler update err reply_raises) = Inl e \<longleftrightarrow>
        (\<exists>m. update = Update (Some m)) \<and> reply_raises = Some e \<and> \<not> is_Exception e)
   \<and> (or_empty BOT_TOKEN \<noteq> [] \<longrightarrow>
        map_sum id error_handlers (main BOT_TOKEN) = Inr [Error_handler])"
proof -
  have trace: "fst (error_handler update err reply_raises)
       = LogException ''Unhandled exception in handler'' err
         # (case update of
              Update (Some m) \<Rightarrow> [ReplyTo m ''Oops, something went wrong. Try again.'']
            | Update None \<Rightarrow> []
            | OtherObject \<Rightarrow> [])"
    by (simp add: error_handler_def apology_def Let_def split: update_obj.split option.split)
  have swallowed: "(case reply_raises of None \<Rightarrow> True | Some e \<Rightarrow> is_Exception e) \<longrightarrow>
        snd (error_handler update err reply_raises) = Inr ()"
    by (simp add: error_handler_def Let_def split: update_obj.split option.split)
  have leaves: "snd (error_handler update err reply_raises) = Inl e \<longleftrightarrow>
        (\<exists>m. update = Update (Some m)) \<and> reply_raises = Some e \<and> \<not> is_Exception e"
    by (auto simp: error_handler_def Let_def split: update_obj.splits option.splits if_splits)
  have registered: "or_empty BOT_TOKEN \<noteq> [] \<longrightarrow>
        map_sum id error_handlers (main BOT_TOKEN) = Inr [Error_handler]"
    by (simp add: main_def)
  from trace swallowed leaves registered show ?thesis by blast
qed

theorem error_handler_swallows_witness:
  "is_Exception (PyException ''NetworkError'')
   \<and> or_empty (Some ''123:abc'') \<noteq> []
   \<and> map_sum id error_handlers (main (Some ''123:abc'')) = Inr [Error_handler]
   \<and> error_handler (Update (Some 42)) (PyException ''KeyError'')
        (Some (PyException ''NetworkError''))
       = ([LogException ''Unhandled exception in handler'' (PyException ''KeyError''),
           ReplyTo 42 ''Oops, something went wrong. Try again.''], Inr ())"
  using error_handler_swallows [of "Update (Some 42)" "PyException ''KeyError''"
      "Some (PyException ''NetworkError'')" _ "Some ''123:abc''"]
  by (simp add: or_empty_def prod_eq_iff)

end
